theory Spec2Isabelle
  imports Main "HOL-Library.Sublist"
begin

section \<open>TMS9900 assembly formatter: the per-line parser and renderer\<close>

text \<open>
  A shallow embedding of \<^verbatim>\<open>src/extension.ts\<close>. A JavaScript string is modelled as a
  \<^typ>\<open>string\<close>: each \<^typ>\<open>char\<close> stands for one UTF-16 code unit in the range
  U+0000 .. U+00FF, so \<open>length\<close> is \<^verbatim>\<open>.length\<close>. Column numbers of the configuration
  are JavaScript numbers holding integers, modelled as \<^typ>\<open>int\<close> (they may be negative).
\<close>

subsection \<open>String primitives of the host language\<close>

text \<open>
  The white space of \<^verbatim>\<open>trim\<close>, \<^verbatim>\<open>trimStart\<close>, \<^verbatim>\<open>trimEnd\<close> and of the regular
  expression class \<^verbatim>\<open>\s\<close> (the two agree): TAB, LF, VT, FF, CR, SPACE and, in the modelled
  range, NO-BREAK SPACE.
\<close>

definition isWhiteSpace :: "char \<Rightarrow> bool" where
  "isWhiteSpace c \<longleftrightarrow>
     c = CHR 0x09 \<or> c = CHR 0x0A \<or> c = CHR 0x0B \<or> c = CHR 0x0C \<or> c = CHR 0x0D \<or>
     c = CHR 0x20 \<or> c = CHR 0xA0"

definition trimStart :: "string \<Rightarrow> string" where
  "trimStart s = dropWhile isWhiteSpace s"

definition trimEnd :: "string \<Rightarrow> string" where
  "trimEnd s = rev (dropWhile isWhiteSpace (rev s))"

definition trim :: "string \<Rightarrow> string" where
  "trim s = trimEnd (trimStart s)"

definition startsWith :: "string \<Rightarrow> string \<Rightarrow> bool" where
  "startsWith s p \<longleftrightarrow> take (length p) s = p"

text \<open>\<^verbatim>\<open>s.indexOf(c)\<close>: the index of the first occurrence, \<open>-1\<close> when there is none.\<close>

fun indexOf :: "string \<Rightarrow> char \<Rightarrow> int" where
  "indexOf [] c = - 1"
| "indexOf (x # xs) c =
     (if x = c then 0 else (let r = indexOf xs c in if r < 0 then - 1 else r + 1))"

text \<open>\<^verbatim>\<open>s.substring(a, b)\<close> and \<^verbatim>\<open>s.substring(a)\<close> for \<open>0 \<le> a \<le> b\<close>, as the source calls them.\<close>

definition substring :: "string \<Rightarrow> int \<Rightarrow> int \<Rightarrow> string" where
  "substring s a b = take (nat b - nat a) (drop (nat a) s)"

definition substringFrom :: "string \<Rightarrow> int \<Rightarrow> string" where
  "substringFrom s a = drop (nat a) s"

text \<open>
  \<^verbatim>\<open>s.padEnd(n)\<close>: spaces are appended until the length is \<open>n\<close>; nothing is appended when
  \<open>n\<close> is not larger than the length (a negative \<open>n\<close> included).
\<close>

definition padEnd :: "string \<Rightarrow> int \<Rightarrow> string" where
  "padEnd s n = s @ replicate (nat n - length s) CHR '' ''"

text \<open>
  \<^verbatim>\<open>s.split(/\s+/)\<close>: the pieces between maximal runs of white space. A string that starts
  (ends) with white space yields an empty first (last) piece; the empty string yields one
  empty piece.
\<close>

function splitWhitespace :: "string \<Rightarrow> string list" where
  "splitWhitespace s =
     (let piece = takeWhile (\<lambda>c. \<not> isWhiteSpace c) s;
          rest = dropWhile (\<lambda>c. \<not> isWhiteSpace c) s
      in if rest = [] then [piece]
         else piece # splitWhitespace (dropWhile isWhiteSpace (tl rest)))"
  by pat_completeness auto
termination
proof (relation "measure length", goal_cases)
  case 1
  show ?case by simp
next
  case (2 s piece rest)
  have "length (dropWhile isWhiteSpace (tl rest)) \<le> length (tl rest)"
    by (rule length_dropWhile_le)
  moreover have "length (tl rest) < length rest"
    using 2 by (cases rest) simp_all
  moreover have "length rest \<le> length s"
    using 2 by (simp add: length_dropWhile_le)
  ultimately show ?case by simp
qed

declare splitWhitespace.simps [simp del]

text \<open>\<^verbatim>\<open>xs.join(' ')\<close>.\<close>

fun joinSpace :: "string list \<Rightarrow> string" where
  "joinSpace [] = []"
| "joinSpace [x] = x"
| "joinSpace (x # y # ys) = x @ CHR '' '' # joinSpace (y # ys)"

text \<open>
  \<^verbatim>\<open>s.toUpperCase()\<close> on the modelled range: \<open>a..z\<close> and the Latin-1 small letters
  U+00E0 .. U+00FE (but not the division sign U+00F7) move down by \<open>0x20\<close>; the sharp s
  U+00DF becomes the two code units \<open>SS\<close>. The upper-case forms of U+00B5 and U+00FF lie
  outside the modelled range (U+039C and U+0178); they are kept as they are here, which
  no function below can observe: an upper-cased token is only compared with the ASCII words
  of the two vocabulary sets and with a leading dot.
\<close>

definition toUpperChar :: "char \<Rightarrow> string" where
  "toUpperChar c =
     (let n = (of_char c :: nat) in
      if 97 \<le> n \<and> n \<le> 122 then [char_of (n - 32)]
      else if n = 223 then ''SS''
      else if 224 \<le> n \<and> n \<le> 254 \<and> n \<noteq> 247 then [char_of (n - 32)]
      else [c])"

definition toUpperCase :: "string \<Rightarrow> string" where
  "toUpperCase s = concat (map toUpperChar s)"

text \<open>
  \<^verbatim>\<open>s.replace(/,\s*/g, ', ')\<close>: every comma, with the white space after it, becomes a
  comma and one space.
\<close>

function replaceCommaStar :: "string \<Rightarrow> string" where
  "replaceCommaStar [] = []"
| "replaceCommaStar (c # cs) =
     (if c = CHR '','' then '', '' @ replaceCommaStar (dropWhile isWhiteSpace cs)
      else c # replaceCommaStar cs)"
  by pat_completeness auto
termination
  by (relation "measure length") (simp_all add: length_dropWhile_le le_imp_less_Suc)

text \<open>
  \<^verbatim>\<open>s.replace(/,\s+/g, ', ')\<close>: every comma followed by at least one white space
  character becomes, with that white space, a comma and one space.
\<close>

function replaceCommaPlus :: "string \<Rightarrow> string" where
  "replaceCommaPlus [] = []"
| "replaceCommaPlus (c # cs) =
     (if c = CHR '','' \<and> cs \<noteq> [] \<and> isWhiteSpace (hd cs)
      then '', '' @ replaceCommaPlus (dropWhile isWhiteSpace cs)
      else c # replaceCommaPlus cs)"
  by pat_completeness auto
termination
  by (relation "measure length") (simp_all add: length_dropWhile_le le_imp_less_Suc)

subsection \<open>Vocabulary tables\<close>

definition INSTRUCTIONS :: "string list" where
  "INSTRUCTIONS =
    [''A'', ''AB'', ''ABS'', ''AI'', ''ANDI'', ''B'', ''BL'', ''BLWP'', ''C'', ''CB'', ''CI'', ''CLR'',
     ''COC'', ''CZC'', ''DEC'', ''DECT'', ''DIV'', ''IDIV'', ''INC'', ''INCT'', ''INV'',
     ''JEQ'', ''JGT'', ''JHE'', ''JH'', ''JL'', ''JLE'', ''JLT'', ''JMP'', ''JNC'', ''JNE'', ''JNO'',
     ''JOC'', ''JOP'',
     ''LDCR'', ''LI'', ''LIMI'', ''LREX'', ''LWPI'', ''MOV'', ''MOVB'', ''MPY'', ''NEG'', ''ORI'',
     ''RTWP'', ''S'', ''SB'', ''SBO'', ''SBZ'', ''SETO'', ''SLA'', ''SRA'', ''SRC'', ''SRL'',
     ''STCR'', ''STST'', ''STWP'', ''SWPB'', ''SZC'', ''SZF'', ''TB'', ''X'', ''XOP'', ''XOR'']"

definition DIRECTIVES :: "string list" where
  "DIRECTIVES =
    [''EQU'', ''DATA'', ''BYTE'', ''TEXT'', ''BSS'', ''BES'', ''ORG'', ''END'', ''AORG'', ''RORG'',
     ''DORG'', ''IDT'', ''DEF'', ''REF'', ''TITL'', ''PAGE'', ''LIST'', ''UNL'', ''BCOPY'', ''COPY'',
     ''SAVE'']"

text \<open>\<^verbatim>\<open>SET.has(s)\<close>.\<close>

definition has :: "string list \<Rightarrow> string \<Rightarrow> bool" where
  "has vocabulary s \<longleftrightarrow> s \<in> set vocabulary"

subsection \<open>Data model\<close>

record ParsedLine =
  label :: string
  instruction :: string
  operands :: string
  comment :: string

record FormatConfig =
  labelColumn :: int
  instructionColumn :: int
  operandColumn :: int
  commentColumn :: int
  uppercaseInstructions :: bool
  uppercaseDirectives :: bool
  spaceAfterComma :: bool

text \<open>The defaults of \<^verbatim>\<open>getFormatConfig\<close>, used when the host has no setting.\<close>

definition defaultConfig :: FormatConfig where
  "defaultConfig =
     \<lparr>labelColumn = 0, instructionColumn = 9, operandColumn = 18, commentColumn = 40,
      uppercaseInstructions = True, uppercaseDirectives = True, spaceAfterComma = True\<rparr>"

subsection \<open>The line parser\<close>

text \<open>
  The tail of \<^verbatim>\<open>parseLine\<close>, after the label decision: the next token, when there is one,
  is the instruction, and what is left is joined into the operands.
\<close>

definition parseRest :: "ParsedLine \<Rightarrow> string list \<Rightarrow> nat \<Rightarrow> ParsedLine" where
  "parseRest result tokens tokenIndex =
     (let (result1, tokenIndex1) =
            (if tokenIndex < length tokens
             then (result\<lparr>instruction := tokens ! tokenIndex\<rparr>, tokenIndex + 1)
             else (result, tokenIndex))
      in if tokenIndex1 < length tokens
         then result1\<lparr>operands := joinSpace (drop tokenIndex1 tokens)\<rparr>
         else result1)"

definition parseLine :: "string \<Rightarrow> ParsedLine" where
  "parseLine line =
     (let result = \<lparr>label = [], instruction = [], operands = [], comment = []\<rparr> in
      if startsWith (trimStart line) ''*'' \<or> startsWith (trimStart line) '';''
      then result\<lparr>comment := trimStart line\<rparr>
      else
        let commentIndex = indexOf line CHR '';'';
            codePart0 = (if commentIndex \<ge> 0 then substring line 0 commentIndex else line);
            result1 = result\<lparr>comment :=
                        (if commentIndex \<ge> 0 then trim (substringFrom line commentIndex) else [])\<rparr>;
            codePart = trimEnd codePart0
        in if trim codePart = [] then result1
           else
             let tokens = splitWhitespace (trim codePart) in
             if length tokens = 0 then result1
             else
               let firstToken = toUpperCase (tokens ! 0);
                   isInstOrDir = (has INSTRUCTIONS firstToken \<or> has DIRECTIVES firstToken \<or>
                                  startsWith firstToken ''.'')
               in if \<not> isInstOrDir \<and> length tokens > 1
                  then parseRest (result1\<lparr>label := tokens ! 0\<rparr>) tokens 1
                  else if \<not> isInstOrDir \<and> length tokens = 1
                  then result1\<lparr>label := tokens ! 0\<rparr>
                  else parseRest result1 tokens 0)"

subsection \<open>The line renderer\<close>

definition formatOperands :: "string \<Rightarrow> FormatConfig \<Rightarrow> string" where
  "formatOperands ops config =
     (if ops = [] then []
      else if spaceAfterComma config then replaceCommaPlus (replaceCommaStar ops)
      else ops)"

definition formatLine :: "string \<Rightarrow> FormatConfig \<Rightarrow> string" where
  "formatLine line config =
     (if trim line = [] then []
      else
        let parsed = parseLine line in
        if comment parsed \<noteq> [] \<and> label parsed = [] \<and> instruction parsed = [] \<and>
           operands parsed = []
        then (if trimStart line = line then comment parsed
              else padEnd [] (commentColumn config) @ comment parsed)
        else
          let formatted0 =
                (if label parsed \<noteq> []
                 then (if int (length (label parsed)) \<ge> instructionColumn config
                       then label parsed @ '' ''
                       else padEnd (label parsed) (instructionColumn config))
                 else padEnd [] (instructionColumn config));
              formatted1 =
                (if instruction parsed \<noteq> []
                 then
                   let instUpper = toUpperCase (instruction parsed);
                       inst = (if has INSTRUCTIONS instUpper \<and> uppercaseInstructions config
                               then instUpper
                               else if has DIRECTIVES instUpper \<and> uppercaseDirectives config
                               then instUpper
                               else instruction parsed)
                   in if length formatted0 > 0 \<and> trimEnd formatted0 = formatted0
                      then formatted0 @ inst
                      else formatted0 @ inst
                 else formatted0);
              formatted2 =
                (if operands parsed \<noteq> []
                 then (trimEnd formatted1 @ '' '') @ formatOperands (operands parsed) config
                 else formatted1);
              formatted3 =
                (if comment parsed \<noteq> []
                 then
                   let currentLength = int (length (trimEnd formatted2)) in
                   if currentLength < commentColumn config
                   then padEnd (trimEnd formatted2) (commentColumn config) @ comment parsed
                   else trimEnd formatted2 @ ''  '' @ comment parsed
                 else formatted2)
          in trimEnd formatted3)"

text \<open>
  The stages of \<^verbatim>\<open>formatLine\<close> under names of their own, for the statements below:
  the label field (the first value of \<^verbatim>\<open>formatted\<close>), the casing decision for the
  instruction (the final value of \<^verbatim>\<open>inst\<close>), the code portion (\<^verbatim>\<open>formatted\<close> before
  the comment is placed) and the whole rendering of a line that is not a whole-line comment.
  Lemma \<open>formatLine_stages\<close> shows that \<^const>\<open>formatLine\<close> is their composition.
\<close>

definition labelField :: "string \<Rightarrow> FormatConfig \<Rightarrow> string" where
  "labelField lab config =
     (if lab \<noteq> []
      then (if int (length lab) \<ge> instructionColumn config
            then lab @ '' ''
            else padEnd lab (instructionColumn config))
      else padEnd [] (instructionColumn config))"

definition casedInstruction :: "string \<Rightarrow> FormatConfig \<Rightarrow> string" where
  "casedInstruction inst config =
     (if has INSTRUCTIONS (toUpperCase inst) \<and> uppercaseInstructions config
      then toUpperCase inst
      else if has DIRECTIVES (toUpperCase inst) \<and> uppercaseDirectives config
      then toUpperCase inst
      else inst)"

definition codePortion :: "ParsedLine \<Rightarrow> FormatConfig \<Rightarrow> string" where
  "codePortion parsed config =
     (let formatted1 =
            (if instruction parsed \<noteq> []
             then labelField (label parsed) config @ casedInstruction (instruction parsed) config
             else labelField (label parsed) config)
      in if operands parsed \<noteq> []
         then (trimEnd formatted1 @ '' '') @ formatOperands (operands parsed) config
         else formatted1)"

definition renderParsed :: "ParsedLine \<Rightarrow> FormatConfig \<Rightarrow> string" where
  "renderParsed parsed config =
     trimEnd
       (if comment parsed \<noteq> []
        then (if int (length (trimEnd (codePortion parsed config))) < commentColumn config
              then padEnd (trimEnd (codePortion parsed config)) (commentColumn config)
                   @ comment parsed
              else trimEnd (codePortion parsed config) @ ''  '' @ comment parsed)
        else codePortion parsed config)"

definition isWholeComment :: "ParsedLine \<Rightarrow> bool" where
  "isWholeComment parsed \<longleftrightarrow>
     comment parsed \<noteq> [] \<and> label parsed = [] \<and> instruction parsed = [] \<and>
     operands parsed = []"

subsection \<open>The document driver\<close>

text \<open>
  \<^verbatim>\<open>provideDocumentFormattingEdits\<close>. The document is the list of its lines' texts. An
  edit \<^verbatim>\<open>TextEdit.replace(line.range, formatted)\<close> replaces the whole of one line, so it
  is the pair of the line's index and the new text. The configuration, which the source
  reads from the host once before the loop, is a parameter. The cancellation token is
  set by the host while the loop runs: \<open>token i\<close> is what \<^verbatim>\<open>token.isCancellationRequested\<close>
  reads at the top of iteration \<open>i\<close>, that is, when \<open>i\<close> lines have been processed.
\<close>

type_synonym TextEdit = "nat \<times> string"

function formatLoop ::
  "string list \<Rightarrow> FormatConfig \<Rightarrow> (nat \<Rightarrow> bool) \<Rightarrow> nat \<Rightarrow> TextEdit list \<Rightarrow> TextEdit list" where
  "formatLoop document config token i edits =
     (if i < length document
      then (if token i then edits
            else
              let line = document ! i;
                  formatted = formatLine line config
              in formatLoop document config token (i + 1)
                   (if formatted \<noteq> line then edits @ [(i, formatted)] else edits))
      else edits)"
  by pat_completeness auto
termination
  by (relation "measure (\<lambda>(document, config, token, i, edits). length document - i)") auto

declare formatLoop.simps [simp del]

definition provideDocumentFormattingEdits ::
  "string list \<Rightarrow> FormatConfig \<Rightarrow> (nat \<Rightarrow> bool) \<Rightarrow> TextEdit list" where
  "provideDocumentFormattingEdits document config token = formatLoop document config token 0 []"

text \<open>The edits of the lines \<open>[i, k)\<close>: one per line that formatting changes, in line order.\<close>

definition editsBetween :: "string list \<Rightarrow> FormatConfig \<Rightarrow> nat \<Rightarrow> nat \<Rightarrow> TextEdit list" where
  "editsBetween document config i k =
     map (\<lambda>j. (j, formatLine (document ! j) config))
       (filter (\<lambda>j. formatLine (document ! j) config \<noteq> document ! j) [i..<k])"

section \<open>Properties\<close>

subsection \<open>The stages of the renderer\<close>

lemma formatLine_stages:
  "formatLine line config =
     (if trim line = [] then []
      else if isWholeComment (parseLine line)
      then (if trimStart line = line then comment (parseLine line)
            else padEnd [] (commentColumn config) @ comment (parseLine line))
      else renderParsed (parseLine line) config)"
  by (simp add: formatLine_def isWholeComment_def renderParsed_def codePortion_def
      labelField_def casedInstruction_def Let_def)

subsection \<open>The driver\<close>

lemma editsBetween_empty: "editsBetween document config k k = []"
  by (simp add: editsBetween_def)

lemma editsBetween_step:
  assumes "i < k"
  shows "editsBetween document config i k =
           (if formatLine (document ! i) config \<noteq> document ! i
            then [(i, formatLine (document ! i) config)] else [])
           @ editsBetween document config (Suc i) k"
  using assms by (simp add: editsBetween_def upt_conv_Cons)

lemma editsBetween_split:
  assumes "i \<le> j" and "j \<le> k"
  shows "editsBetween document config i k =
           editsBetween document config i j @ editsBetween document config j k"
proof -
  have "[i..<k] = [i..<j] @ [j..<k]"
    using assms by (metis le_Suc_ex upt_add_eq_append)
  then show ?thesis by (simp add: editsBetween_def)
qed

lemma formatLoop_cancelled:
  assumes "i \<le> k" and "k \<le> length document"
    and "\<And>j. i \<le> j \<Longrightarrow> j < k \<Longrightarrow> \<not> token j"
    and "k < length document \<Longrightarrow> token k"
  shows "formatLoop document config token i edits = edits @ editsBetween document config i k"
  using assms
proof (induction "k - i" arbitrary: i edits)
  case 0
  then have ik: "i = k" by simp
  show ?case
  proof (cases "k < length document")
    case True
    with 0 ik show ?thesis
      by (subst formatLoop.simps) (simp add: editsBetween_empty)
  next
    case False
    with 0 ik show ?thesis
      by (subst formatLoop.simps) (simp add: editsBetween_empty)
  qed
next
  case (Suc n)
  then have lt: "i < k" and len: "i < length document" by simp_all
  have nt: "\<not> token i" using Suc.prems(3) [of i] lt by simp
  let ?e = "(if formatLine (document ! i) config \<noteq> document ! i
             then edits @ [(i, formatLine (document ! i) config)] else edits)"
  have "formatLoop document config token i edits
          = formatLoop document config token (Suc i) ?e"
    using len nt by (subst formatLoop.simps) (simp add: Let_def)
  also have "\<dots> = ?e @ editsBetween document config (Suc i) k"
  proof (rule Suc.hyps(1))
    show "n = k - Suc i" using Suc.hyps(2) by simp
    show "Suc i \<le> k" using lt by simp
    show "k \<le> length document" by (rule Suc.prems(2))
    show "\<not> token j" if "Suc i \<le> j" and "j < k" for j
      using Suc.prems(3) [of j] that by simp
    show "token k" if "k < length document"
      using Suc.prems(4) that by simp
  qed
  also have "\<dots> = edits @ editsBetween document config i k"
    by (simp add: editsBetween_step [OF lt])
  finally show ?case .
qed

subsection \<open>Upper-casing and the leading dot\<close>

lemma char_of_not_dot:
  assumes "m < 256" and "m \<noteq> 46"
  shows "char_of (m::nat) \<noteq> CHR ''.''"
proof
  assume "char_of m = CHR ''.''"
  then have "(of_char (char_of m) :: nat) = of_char CHR ''.''" by simp
  then have "m mod 256 = 46" by (simp add: of_char_of)
  with assms show False by simp
qed

lemma toUpperChar_hd:
  "toUpperChar c \<noteq> [] \<and> (hd (toUpperChar c) = CHR ''.'') = (c = CHR ''.'')"
proof -
  have c46: "(c = CHR ''.'') = ((of_char c :: nat) = 46)"
  proof
    assume "c = CHR ''.''"
    then show "(of_char c :: nat) = 46" by simp
  next
    assume "(of_char c :: nat) = 46"
    then have "char_of (of_char c :: nat) = char_of (46::nat)" by simp
    moreover have "char_of (46::nat) = CHR ''.''" by code_simp
    ultimately show "c = CHR ''.''" by simp
  qed
  have lt: "(of_char c :: nat) < 256" by simp
  show ?thesis
    unfolding toUpperChar_def Let_def
    using lt by (auto simp: char_of_not_dot c46)
qed

lemma startsWith_dot_toUpperCase:
  "startsWith (toUpperCase t) ''.'' = startsWith t ''.''"
proof (cases t)
  case Nil
  then show ?thesis by (simp add: toUpperCase_def)
next
  case (Cons c cs)
  obtain d ds where u: "toUpperChar c = d # ds"
    using toUpperChar_hd [of c] by (cases "toUpperChar c") auto
  have "(d = CHR ''.'') = (c = CHR ''.'')"
    using toUpperChar_hd [of c] u by simp
  then show ?thesis
    using Cons u by (simp add: toUpperCase_def startsWith_def)
qed

lemma label_parseRest [simp]: "label (parseRest r ts i) = label r"
  by (simp add: parseRest_def)

section \<open>The claims\<close>

text \<open>
  C2. The scenario \<^verbatim>\<open>"loop mov r1,r2 ;copy"\<close> under the default configuration. The line is
  parsed into label \<open>loop\<close>, instruction \<open>mov\<close>, operands \<open>r1,r2\<close> and comment \<open>;copy\<close>.
  The rendering is \<open>loop     MOV r1, r2\<close> (19 characters), then 21 spaces, then \<open>;copy\<close>:
  45 characters, with the comment starting at column 40.
\<close>

theorem scenario_loop:
  "parseLine ''loop mov r1,r2 ;copy''
     = \<lparr>label = ''loop'', instruction = ''mov'', operands = ''r1,r2'', comment = '';copy''\<rparr>
   \<and> formatLine ''loop mov r1,r2 ;copy'' defaultConfig
     = ''loop     MOV r1, r2'' @ replicate 21 CHR '' '' @ '';copy''
   \<and> indexOf (formatLine ''loop mov r1,r2 ;copy'' defaultConfig) CHR '';'' = 40
   \<and> drop 40 (formatLine ''loop mov r1,r2 ;copy'' defaultConfig) = '';copy''"
  by code_simp

text \<open>
  The string that C2 gives for the rendering has 20 spaces before the comment, which
  would start at column 39: it is not what \<^const>\<open>formatLine\<close> returns.
\<close>

theorem scenario_loop_counterexample:
  "formatLine ''loop mov r1,r2 ;copy'' defaultConfig
     \<noteq> ''loop     MOV r1, r2                    ;copy''"
  by code_simp

text \<open>
  C6. A whole-line comment is returned by the early exit of \<^verbatim>\<open>formatLine\<close>, which the
  final \<^verbatim>\<open>trimEnd\<close> does not reach: the comment keeps the trailing white space of the
  original line, at column 0 as well as when it is moved to the comment column.
\<close>

theorem whole_comment_trailing_space:
  "formatLine ''* x '' defaultConfig = ''* x ''
   \<and> isWhiteSpace (last (formatLine ''* x '' defaultConfig))
   \<and> formatLine ''  ; x '' defaultConfig = replicate 40 CHR '' '' @ ''; x ''"
  by code_simp

text \<open>
  C8. Cancellation of the document driver. When the token is first seen set after \<open>K\<close>
  lines have been processed (\<open>K\<close> may be the number of lines: no cancellation), the edits
  returned are those of the lines \<open>[0, K)\<close>: a pair of index and formatted text for each
  line that formatting changes, in line order, and nothing for an unchanged line. An
  uncancelled run returns the edits of all lines, and the cancelled run's result is a
  prefix of it.
\<close>

theorem driver_cancellation_prefix:
  assumes "K \<le> length document"
    and "\<forall>i<K. \<not> token i"
    and "K < length document \<longrightarrow> token K"
  shows "provideDocumentFormattingEdits document config token = editsBetween document config 0 K
       \<and> provideDocumentFormattingEdits document config (\<lambda>i. False)
           = editsBetween document config 0 (length document)
       \<and> prefix (provideDocumentFormattingEdits document config token)
           (provideDocumentFormattingEdits document config (\<lambda>i. False))"
proof -
  have cut: "provideDocumentFormattingEdits document config token
               = editsBetween document config 0 K"
  proof -
    have "formatLoop document config token 0 [] = [] @ editsBetween document config 0 K"
    proof (rule formatLoop_cancelled)
      show "0 \<le> K" by simp
      show "K \<le> length document" by (rule assms(1))
      show "\<not> token j" if "0 \<le> j" and "j < K" for j
        using assms(2) that by blast
      show "token K" if "K < length document"
        using assms(3) that by blast
    qed
    then show ?thesis by (simp add: provideDocumentFormattingEdits_def)
  qed
  have full: "provideDocumentFormattingEdits document config (\<lambda>i. False)
                = editsBetween document config 0 (length document)"
  proof -
    have "formatLoop document config (\<lambda>i. False) 0 []
            = [] @ editsBetween document config 0 (length document)"
      by (rule formatLoop_cancelled) simp_all
    then show ?thesis by (simp add: provideDocumentFormattingEdits_def)
  qed
  have "editsBetween document config 0 (length document)
          = editsBetween document config 0 K @ editsBetween document config K (length document)"
    by (rule editsBetween_split) (simp_all add: assms(1))
  then have "prefix (editsBetween document config 0 K)
               (editsBetween document config 0 (length document))"
    by simp
  with cut full show ?thesis by simp
qed

theorem driver_cancellation_prefix_witness:
  "provideDocumentFormattingEdits [''mov r1,r2'', ''* note'', ''y  ''] defaultConfig (\<lambda>i. 2 \<le> i)
     = [(0, ''         MOV r1, r2'')]
   \<and> provideDocumentFormattingEdits [''mov r1,r2'', ''* note'', ''y  ''] defaultConfig (\<lambda>i. False)
     = [(0, ''         MOV r1, r2''), (2, ''y'')]"
proof -
  let ?doc = "[''mov r1,r2'', ''* note'', ''y  '']"
  have a: "(2::nat) \<le> length ?doc" by simp
  have b: "\<forall>i<(2::nat). \<not> 2 \<le> i" by simp
  have c: "2 < length ?doc \<longrightarrow> (2::nat) \<le> 2" by simp
  note t = driver_cancellation_prefix [of 2 ?doc "\<lambda>i. 2 \<le> i" defaultConfig, OF a b c]
  have e2: "editsBetween ?doc defaultConfig 0 2 = [(0, ''         MOV r1, r2'')]"
    by code_simp
  have e3: "editsBetween ?doc defaultConfig 0 (length ?doc)
              = [(0, ''         MOV r1, r2''), (2, ''y'')]"
    by code_simp
  from t e2 e3 show ?thesis by simp
qed

text \<open>
  C9. The rendering does not depend on \<^verbatim>\<open>operandColumn\<close>: two configurations that agree
  on every other field format every line to the same string.
\<close>

theorem operandColumn_noninterference:
  assumes "labelColumn c1 = labelColumn c2"
    and "instructionColumn c1 = instructionColumn c2"
    and "commentColumn c1 = commentColumn c2"
    and "uppercaseInstructions c1 = uppercaseInstructions c2"
    and "uppercaseDirectives c1 = uppercaseDirectives c2"
    and "spaceAfterComma c1 = spaceAfterComma c2"
  shows "formatLine line c1 = formatLine line c2"
  using assms
  by (simp add: formatLine_stages renderParsed_def codePortion_def labelField_def
      casedInstruction_def formatOperands_def Let_def cong: if_cong)

theorem operandColumn_noninterference_witness:
  "formatLine ''loop mov r1,r2 ;copy'' (defaultConfig\<lparr>operandColumn := 3\<rparr>)
     = formatLine ''loop mov r1,r2 ;copy'' defaultConfig"
  using operandColumn_noninterference
          [of "defaultConfig\<lparr>operandColumn := 3\<rparr>" defaultConfig "''loop mov r1,r2 ;copy''"]
  by (simp add: defaultConfig_def)

text \<open>
  C10. A label returned by the parser is never a word of the vocabulary: its upper-cased
  form is in neither \<^const>\<open>INSTRUCTIONS\<close> nor \<^const>\<open>DIRECTIVES\<close>, and it does not begin
  with a dot.
\<close>

theorem parseLine_label_not_vocabulary:
  assumes "label (parseLine line) \<noteq> []"
  shows "\<not> has INSTRUCTIONS (toUpperCase (label (parseLine line)))
       \<and> \<not> has DIRECTIVES (toUpperCase (label (parseLine line)))
       \<and> \<not> startsWith (label (parseLine line)) ''.''"
proof -
  let ?P = "\<lambda>t. \<not> has INSTRUCTIONS (toUpperCase t) \<and> \<not> has DIRECTIVES (toUpperCase t)
              \<and> \<not> startsWith t ''.''"
  have "label (parseLine line) = [] \<or> ?P (label (parseLine line))"
    unfolding parseLine_def Let_def
    by (simp add: startsWith_dot_toUpperCase)
  with assms show ?thesis by blast
qed

theorem parseLine_label_not_vocabulary_witness:
  "label (parseLine ''loop mov r1,r2 ;copy'') = ''loop''
   \<and> \<not> has INSTRUCTIONS (toUpperCase ''loop'') \<and> \<not> has DIRECTIVES (toUpperCase ''loop'')
   \<and> \<not> startsWith ''loop'' ''.''"
proof -
  have l: "label (parseLine ''loop mov r1,r2 ;copy'') = ''loop''" by code_simp
  then have "label (parseLine ''loop mov r1,r2 ;copy'') \<noteq> []" by simp
  from parseLine_label_not_vocabulary [OF this] l show ?thesis by simp
qed

end
